theory Spec2Isabelle
  imports Main "HOL-Library.AList"
begin

section \<open>Values, errors and the collaborators of eland.DataFrame\<close>

text \<open>
  Raw documents and aggregation responses are JSON values as Python holds them after
  parsing: \<open>None\<close>, \<open>bool\<close>, numbers, \<open>str\<close>, \<open>list\<close> and \<open>dict\<close>.
  A \<open>dict\<close> is an association list in insertion order (the order \<open>for a in x\<close>
  visits); a Python dict has no repeated key. Numbers are integers here: no operation of
  the modelled code computes with them, they are only passed through.
\<close>

datatype json =
    JNull
  | JBool bool
  | JNum int
  | JStr string
  | JList "json list"
  | JDict "(string \<times> json) list"

text \<open>The exceptions the modelled code raises or lets through.\<close>

datatype error =
    TypeError string
  | KeyError string
  | UnknownColumnError
  | NotFoundError
  | TransportError
  | PandasError

text \<open>
  A cell of a pandas frame: a value, or \<open>NaN\<close>, which pandas puts where a record
  has no entry for a column. Python's \<open>None\<close> is \<open>Cell JNull\<close>.
\<close>

datatype cell = NaN | Cell json

text \<open>
  The calls into pandas that can raise: \<open>pd.to_datetime(x)\<close> and
  \<open>Series.astype(dtype)\<close>. Their results are not computed by the repository, so
  they are parameters.
\<close>

record pandas =
  to_datetime :: "json \<Rightarrow> error + json"
  astype :: "cell list \<Rightarrow> string \<Rightarrow> error + cell list"

subsection \<open>eland.Mappings\<close>

text \<open>
  Modelled from the spec: the class \<open>eland.Mappings\<close> (the Schema Snapshot) is not
  part of the sources at hand. Section 3 describes it as an ordered mapping from the
  dot-separated field name to a descriptor holding whether the field is projectable, its
  pandas dtype and whether it is aggregatable.
\<close>

record field_descriptor =
  projectable :: bool
  pd_dtype :: string
  aggregatable :: bool

record mappings =
  mappings_capabilities :: "(string \<times> field_descriptor) list"

text \<open>
  Modelled from the spec: \<open>dtypeOf(snapshot, fieldPath) -> (isProjectable, dtype)\<close>.
  The flattener asks it about every path of a document, so a name the snapshot does not
  know is answered with \<open>(False, 'object')\<close>, the same pair \<open>flatten\<close> uses at the
  root.
\<close>

definition source_field_pd_dtype :: "mappings \<Rightarrow> string \<Rightarrow> bool \<times> string" where
  "source_field_pd_dtype M name =
     (case map_of (mappings_capabilities M) name of
        Some d \<Rightarrow> (projectable d, pd_dtype d)
      | None \<Rightarrow> (False, ''object''))"

text \<open>Modelled from the spec: a name is a source field when it is a projectable field.\<close>

definition is_source_field :: "mappings \<Rightarrow> string \<Rightarrow> bool" where
  "is_source_field M name = fst (source_field_pd_dtype M name)"

text \<open>Modelled from the spec: \<open>projectableFields(snapshot)\<close>, in snapshot order.\<close>

definition source_fields :: "mappings \<Rightarrow> string list" where
  "source_fields M = filter (is_source_field M) (map fst (mappings_capabilities M))"

text \<open>
  Modelled from the spec: \<open>numericAggregatableFields(snapshot)\<close>, the projectable,
  aggregatable fields of dtype \<open>int64\<close> or \<open>float64\<close>, in snapshot order.
\<close>

definition numeric_source_fields :: "mappings \<Rightarrow> string list" where
  "numeric_source_fields M =
     map fst (filter (\<lambda>(n, d). projectable d \<and> aggregatable d
                              \<and> (pd_dtype d = ''int64'' \<or> pd_dtype d = ''float64''))
                     (mappings_capabilities M))"

text \<open>
  Modelled from the spec: \<open>narrow(snapshot, columnNames)\<close>, which is
  \<open>ed.Mappings(mappings=..., columns=...)\<close> in the code. It fails with
  \<open>UnknownColumnError\<close> if a requested name is not a projectable field of the parent,
  and otherwise keeps the requested fields in the parent's order.
\<close>

definition narrow :: "mappings \<Rightarrow> string list \<Rightarrow> error + mappings" where
  "narrow M columns =
     (if \<forall>c \<in> set columns. is_source_field M c
      then Inr \<lparr>mappings_capabilities = filter (\<lambda>(n, d). n \<in> set columns) (mappings_capabilities M)\<rparr>
      else Inl UnknownColumnError)"

section \<open>The row flattener: flatten_dict\<close>

text \<open>
  \<open>out\<close> is the Python dict the closure \<open>flatten\<close> fills: an association list in
  insertion order. \<open>AList.update\<close> replaces the value of a present key in place and
  appends an absent key, as \<open>out[field_name] = ...\<close> does.
\<close>

type_synonym row = "(string \<times> json) list"

text \<open>The first four lines of \<open>flatten\<close>: the root has the empty name.\<close>

definition name_dtype :: "mappings \<Rightarrow> string \<Rightarrow> bool \<times> string" where
  "name_dtype M name =
     (if name = '''' then (False, ''object'')
      else source_field_pd_dtype M (butlast name))"

text \<open>The coercion of a source field's value: only \<open>datetime64[ns]\<close> is coerced.\<close>

definition coerce :: "pandas \<Rightarrow> string \<Rightarrow> json \<Rightarrow> error + json" where
  "coerce P dt x = (if dt = ''datetime64[ns]'' then to_datetime P x else Inr x)"

text \<open>
  The pivot of lines 210 to 216: a field already in \<open>out\<close> whose value is not a list is
  first wrapped in a list, then the new value is appended; a field not yet in \<open>out\<close> is
  set to the value itself. A value that is a list is appended to in place; a parsed
  document shares no list between two places and the traversal does not enter a list it
  has stored, so returning the new dict says all the append does.
\<close>

definition put_value :: "string \<Rightarrow> json \<Rightarrow> row \<Rightarrow> row" where
  "put_value field_name x out =
     (case map_of out field_name of
        Some (JList l) \<Rightarrow> AList.update field_name (JList (l @ [x])) out
      | Some old \<Rightarrow> AList.update field_name (JList [old, x]) out
      | None \<Rightarrow> AList.update field_name x out)"

definition emit :: "pandas \<Rightarrow> string \<Rightarrow> string \<Rightarrow> json \<Rightarrow> row \<Rightarrow> error + row" where
  "emit P dt field_name x out =
     (case coerce P dt x of
        Inl e \<Rightarrow> Inl e
      | Inr v \<Rightarrow> Inr (put_value field_name v out))"

text \<open>
  The closure \<open>flatten(x, name)\<close> with the dict it mutates passed through. The two
  \<open>for\<close> loops are \<open>flatten_items\<close> (over a dict, each key extending the name) and
  \<open>flatten_elems\<close> (over a list, under the same name). A value that is neither a
  source field nor a dict nor a list is skipped.
\<close>

fun flatten :: "pandas \<Rightarrow> mappings \<Rightarrow> json \<Rightarrow> string \<Rightarrow> row \<Rightarrow> error + row"
  and flatten_items ::
    "pandas \<Rightarrow> mappings \<Rightarrow> (string \<times> json) list \<Rightarrow> string \<Rightarrow> row \<Rightarrow> error + row"
  and flatten_elems :: "pandas \<Rightarrow> mappings \<Rightarrow> json list \<Rightarrow> string \<Rightarrow> row \<Rightarrow> error + row"
where
  "flatten P M (JDict kvs) name out =
     (if \<not> fst (name_dtype M name) then flatten_items P M kvs name out
      else emit P (snd (name_dtype M name)) (butlast name) (JDict kvs) out)"
| "flatten P M (JList xs) name out =
     (if \<not> fst (name_dtype M name) then flatten_elems P M xs name out
      else emit P (snd (name_dtype M name)) (butlast name) (JList xs) out)"
| "flatten P M x name out =
     (if fst (name_dtype M name)
      then emit P (snd (name_dtype M name)) (butlast name) x out
      else Inr out)"
| "flatten_items P M [] name out = Inr out"
| "flatten_items P M ((a, v) # kvs) name out =
     (case flatten P M v (name @ a @ ''.'') out of
        Inl e \<Rightarrow> Inl e
      | Inr out' \<Rightarrow> flatten_items P M kvs name out')"
| "flatten_elems P M [] name out = Inr out"
| "flatten_elems P M (a # xs) name out =
     (case flatten P M a name out of
        Inl e \<Rightarrow> Inl e
      | Inr out' \<Rightarrow> flatten_elems P M xs name out')"

definition flatten_dict :: "pandas \<Rightarrow> mappings \<Rightarrow> json \<Rightarrow> error + row" where
  "flatten_dict P M y = flatten P M y '''' []"

section \<open>The pandas frames the code builds\<close>

text \<open>
  A \<open>pandas.DataFrame\<close> with its column labels and its rows, each row holding one
  cell per column. The conversions pandas applies to the dtype of a column are left out:
  a cell keeps the value it was given.
\<close>

record frame =
  frame_columns :: "string list"
  frame_data :: "cell list list"

text \<open>The cell of a row under a column label, by the frame's column labels.\<close>

definition cell_at :: "string list \<Rightarrow> cell list \<Rightarrow> string \<Rightarrow> cell option" where
  "cell_at cols r c = map_of (zip cols r) c"

text \<open>
  \<open>pd.DataFrame(data=rows)\<close> for a list of dicts: the columns are the keys of the
  records (here in order of first appearance; the code reorders the columns before it
  returns), and a record without a key has \<open>NaN\<close> there.
\<close>

definition from_records :: "row list \<Rightarrow> frame" where
  "from_records rows =
     (let cols = rev (remdups (rev (concat (map (map fst) rows))))
      in \<lparr>frame_columns = cols,
          frame_data = map (\<lambda>r. map (\<lambda>c. case map_of r c of Some v \<Rightarrow> Cell v | None \<Rightarrow> NaN) cols) rows\<rparr>)"

text \<open>\<open>df[c] = None\<close>: a new column of \<open>None\<close> at the end, or an existing one overwritten.\<close>

definition setitem_none :: "frame \<Rightarrow> string \<Rightarrow> frame" where
  "setitem_none df c =
     (if c \<in> set (frame_columns df)
      then df\<lparr>frame_data :=
             map (\<lambda>r. map (\<lambda>(cn, v). if cn = c then Cell JNull else v) (zip (frame_columns df) r))
                 (frame_data df)\<rparr>
      else \<lparr>frame_columns = frame_columns df @ [c],
            frame_data = map (\<lambda>r. r @ [Cell JNull]) (frame_data df)\<rparr>)"

text \<open>\<open>df[c]\<close> for one label: the column as a series.\<close>

definition getitem_series :: "frame \<Rightarrow> string \<Rightarrow> error + cell list" where
  "getitem_series df c =
     (if c \<in> set (frame_columns df)
      then Inr (map (\<lambda>r. case cell_at (frame_columns df) r c of Some v \<Rightarrow> v | None \<Rightarrow> NaN)
                    (frame_data df))
      else Inl (KeyError c))"

text \<open>\<open>df[cs]\<close> for a list of labels: those columns in that order; a label the frame lacks raises.\<close>

definition getitem_columns :: "frame \<Rightarrow> string list \<Rightarrow> error + frame" where
  "getitem_columns df cs =
     (if \<forall>c \<in> set cs. c \<in> set (frame_columns df)
      then Inr \<lparr>frame_columns = cs,
                frame_data =
                  map (\<lambda>r. map (\<lambda>c. case cell_at (frame_columns df) r c of Some v \<Rightarrow> v | None \<Rightarrow> NaN) cs)
                      (frame_data df)\<rparr>
      else Inl (KeyError ''not in index''))"

text \<open>
  The frame \<open>describe\<close> builds, \<open>pd.DataFrame(data=results, index=[...])\<close>: the row
  labels and, per column, the values under those labels.
\<close>

record stats_frame =
  stats_index :: "string list"
  stats_columns :: "(string \<times> json list) list"

section \<open>The remote store\<close>

text \<open>
  The store is reached through the client only. Its state \<open>'s\<close> is whatever the
  store and the transport hold; every call takes the state and returns the next one, so
  a method that returns the state it was given has issued no call that the store could
  notice. A call answers with a value or raises.
\<close>

record hit =
  hit_source :: json

record results =
  hits :: "hit list"

text \<open>One aggregation of a search: its name, its kind and the field it is computed on.\<close>

type_synonym metric = "string \<times> string \<times> string"

text \<open>
  \<open>es_search\<close> is \<open>client.search(index=..., size=...)\<close>, \<open>es_count\<close> is
  \<open>client.count(index=...)\<close>, \<open>es_execute\<close> is \<open>Search(...).execute()\<close> for
  a search of size 0 with the given aggregations, answering with
  \<open>response.aggregations\<close>.
  Modelled from the spec: \<open>es_mappings\<close> is
  \<open>build(fetchSchemaDescription(locator))\<close>, what \<open>ed.Mappings(client,
  index_pattern)\<close> does.
\<close>

record 's client =
  es_search :: "'s \<Rightarrow> string \<Rightarrow> int \<Rightarrow> (error + results) \<times> 's"
  es_count :: "'s \<Rightarrow> string \<Rightarrow> (error + nat) \<times> 's"
  es_execute :: "'s \<Rightarrow> string \<Rightarrow> metric list \<Rightarrow> (error + json) \<times> 's"
  es_mappings :: "'s \<Rightarrow> string \<Rightarrow> (error + mappings) \<times> 's"

section \<open>eland.DataFrame\<close>

typedecl operation

record 's DataFrame =
  client :: "'s client"
  index_pattern :: string
  mappings :: mappings
  operations :: "operation list"

text \<open>
  \<open>DataFrame.__init__\<close>. \<open>ed.Client(client)\<close> wraps the client it is given and
  reaches the same store. The mappings are fetched only when none are passed.
\<close>

definition DataFrame_init ::
  "'s client \<Rightarrow> string \<Rightarrow> mappings option \<Rightarrow> operation list option \<Rightarrow> 's
     \<Rightarrow> (error + 's DataFrame) \<times> 's" where
  "DataFrame_init cl ip ms ops s =
     (case ms of
        None \<Rightarrow>
          (case es_mappings cl s ip of
             (Inl e, s') \<Rightarrow> (Inl e, s')
           | (Inr m, s') \<Rightarrow>
               (Inr \<lparr>client = cl, index_pattern = ip, mappings = m,
                      operations = (case ops of None \<Rightarrow> [] | Some os \<Rightarrow> [] @ os)\<rparr>, s'))
      | Some m \<Rightarrow>
          (Inr \<lparr>client = cl, index_pattern = ip, mappings = m,
                 operations = (case ops of None \<Rightarrow> [] | Some os \<Rightarrow> [] @ os)\<rparr>, s))"

text \<open>The property \<open>columns\<close>.\<close>

definition columns :: "'s DataFrame \<Rightarrow> string list" where
  "columns self = source_fields (mappings self)"

subsection \<open>_es_results_to_pandas and head\<close>

text \<open>The loop over the hits: each \<open>_source\<close> is flattened and appended to \<open>rows\<close>.\<close>

fun flatten_rows :: "pandas \<Rightarrow> mappings \<Rightarrow> hit list \<Rightarrow> error + row list" where
  "flatten_rows P M [] = Inr []"
| "flatten_rows P M (h # hs) =
     (case flatten_dict P M (hit_source h) of
        Inl e \<Rightarrow> Inl e
      | Inr r \<Rightarrow>
          (case flatten_rows P M hs of
             Inl e \<Rightarrow> Inl e
           | Inr rs \<Rightarrow> Inr (r # rs)))"

text \<open>
  \<open>list(set(self.columns) - set(df.columns))\<close>. Python fixes no order for the
  elements of a set; the order taken here is that of \<open>self.columns\<close>.
\<close>

definition missing_columns :: "string list \<Rightarrow> frame \<Rightarrow> string list" where
  "missing_columns cols df = filter (\<lambda>c. c \<notin> set (frame_columns df)) (remdups cols)"

text \<open>
  The loop over the missing columns: the column is set to \<open>None\<close>, and
  \<open>df[missing].astype(pd_dtype)\<close> is evaluated for the exception it may raise (its
  value is dropped).
\<close>

fun fill_missing :: "pandas \<Rightarrow> mappings \<Rightarrow> frame \<Rightarrow> string list \<Rightarrow> error + frame" where
  "fill_missing P M df [] = Inr df"
| "fill_missing P M df (missing # ms) =
     (case getitem_series (setitem_none df missing) missing of
        Inl e \<Rightarrow> Inl e
      | Inr series \<Rightarrow>
          (case astype P series (snd (source_field_pd_dtype M missing)) of
             Inl e \<Rightarrow> Inl e
           | Inr _ \<Rightarrow> fill_missing P M (setitem_none df missing) ms))"

definition es_results_to_pandas :: "pandas \<Rightarrow> 's DataFrame \<Rightarrow> results \<Rightarrow> error + frame" where
  "es_results_to_pandas P self res =
     (case flatten_rows P (mappings self) (hits res) of
        Inl e \<Rightarrow> Inl e
      | Inr rows \<Rightarrow>
          (case fill_missing P (mappings self) (from_records rows)
                  (missing_columns (columns self) (from_records rows)) of
             Inl e \<Rightarrow> Inl e
           | Inr df \<Rightarrow> getitem_columns df (columns self)))"

text \<open>
  Every method takes the proxy and the store's state and returns its result, the proxy
  as the call leaves it, and the store's state after the call.
\<close>

definition head :: "pandas \<Rightarrow> 's DataFrame \<Rightarrow> 's \<Rightarrow> int \<Rightarrow> (error + frame) \<times> 's DataFrame \<times> 's" where
  "head P self s n =
     (case es_search (client self) s (index_pattern self) n of
        (Inl e, s') \<Rightarrow> (Inl e, self, s')
      | (Inr res, s') \<Rightarrow> (es_results_to_pandas P self res, self, s'))"

subsection \<open>describe\<close>

text \<open>\<open>d[k]\<close> on a parsed response: a missing key and a value that is no dict raise.\<close>

definition py_getitem :: "json \<Rightarrow> string \<Rightarrow> error + json" where
  "py_getitem d k =
     (case d of
        JDict kvs \<Rightarrow> (case map_of kvs k of Some v \<Rightarrow> Inr v | None \<Rightarrow> Inl (KeyError k))
      | _ \<Rightarrow> Inl (TypeError ''object is not subscriptable''))"

definition py_getitem2 :: "json \<Rightarrow> string \<Rightarrow> string \<Rightarrow> error + json" where
  "py_getitem2 d k1 k2 =
     (case py_getitem d k1 of Inl e \<Rightarrow> Inl e | Inr d1 \<Rightarrow> py_getitem d1 k2)"

definition py_getitem3 :: "json \<Rightarrow> string \<Rightarrow> string \<Rightarrow> string \<Rightarrow> error + json" where
  "py_getitem3 d k1 k2 k3 =
     (case py_getitem2 d k1 k2 of Inl e \<Rightarrow> Inl e | Inr d2 \<Rightarrow> py_getitem d2 k3)"

text \<open>Statements in sequence: the first that raises ends the sequence with its exception.\<close>

fun collect :: "(error + 'a) list \<Rightarrow> error + 'a list" where
  "collect [] = Inr []"
| "collect (Inl e # rs) = Inl e"
| "collect (Inr v # rs) = (case collect rs of Inl e \<Rightarrow> Inl e | Inr vs \<Rightarrow> Inr (v # vs))"

text \<open>The first loop of \<open>describe\<close>: two aggregations per field.\<close>

fun add_metrics :: "string list \<Rightarrow> metric list" where
  "add_metrics [] = []"
| "add_metrics (field # fs) =
     (''extended_stats_'' @ field, ''extended_stats'', field)
       # (''percentiles_'' @ field, ''percentiles'', field)
       # add_metrics fs"

text \<open>The eight \<open>values.append(...)\<close> of the second loop, for one field.\<close>

definition stat_values :: "json \<Rightarrow> string \<Rightarrow> error + json list" where
  "stat_values aggregations field =
     collect
       [py_getitem2 aggregations (''extended_stats_'' @ field) ''count'',
        py_getitem2 aggregations (''extended_stats_'' @ field) ''avg'',
        py_getitem2 aggregations (''extended_stats_'' @ field) ''std_deviation'',
        py_getitem2 aggregations (''extended_stats_'' @ field) ''min'',
        py_getitem3 aggregations (''percentiles_'' @ field) ''values'' ''25.0'',
        py_getitem3 aggregations (''percentiles_'' @ field) ''values'' ''50.0'',
        py_getitem3 aggregations (''percentiles_'' @ field) ''values'' ''75.0'',
        py_getitem2 aggregations (''extended_stats_'' @ field) ''max'']"

text \<open>
  The second loop: a field is stored in \<open>results\<close> when
  \<open>values.count(None) < len(values)\<close>.
\<close>

fun describe_loop :: "json \<Rightarrow> string list \<Rightarrow> (string \<times> json list) list
    \<Rightarrow> error + (string \<times> json list) list" where
  "describe_loop aggregations [] res = Inr res"
| "describe_loop aggregations (field # fs) res =
     (case stat_values aggregations field of
        Inl e \<Rightarrow> Inl e
      | Inr values \<Rightarrow>
          describe_loop aggregations fs
            (if count_list values JNull < length values
             then AList.update field values res else res))"

definition describe :: "'s DataFrame \<Rightarrow> 's \<Rightarrow> (error + stats_frame) \<times> 's DataFrame \<times> 's" where
  "describe self s =
     (case es_execute (client self) s (index_pattern self)
             (add_metrics (numeric_source_fields (mappings self))) of
        (Inl e, s') \<Rightarrow> (Inl e, self, s')
      | (Inr aggregations, s') \<Rightarrow>
          (case describe_loop aggregations (numeric_source_fields (mappings self)) [] of
             Inl e \<Rightarrow> (Inl e, self, s')
           | Inr res \<Rightarrow>
               (Inr \<lparr>stats_index = [''count'', ''mean'', ''std'', ''min'', ''25%'', ''50%'', ''75%'', ''max''],
                      stats_columns = res\<rparr>, self, s')))"

subsection \<open>__len__ and shape\<close>

definition dunder_len :: "'s DataFrame \<Rightarrow> 's \<Rightarrow> (error + nat) \<times> 's DataFrame \<times> 's" where
  "dunder_len self s =
     (case es_count (client self) s (index_pattern self) of (r, s') \<Rightarrow> (r, self, s'))"

definition shape :: "'s DataFrame \<Rightarrow> 's \<Rightarrow> (error + nat \<times> nat) \<times> 's DataFrame \<times> 's" where
  "shape self s =
     (case dunder_len self s of
        (Inl e, self', s') \<Rightarrow> (Inl e, self', s')
      | (Inr num_rows, self', s') \<Rightarrow> (Inr (num_rows, length (columns self')), self', s'))"

subsection \<open>__getitem__\<close>

text \<open>
  What can stand between the brackets of \<open>df[...]\<close>: a string, a tuple of strings,
  or something that is neither.
\<close>

datatype item =
    ItemStr string
  | ItemTuple "string list"
  | ItemInt int
  | ItemBool bool
  | ItemNone
  | ItemList "string list"

text \<open>The first half of \<open>__getitem__\<close>: the list \<open>columns\<close> it collects.\<close>

definition item_columns :: "mappings \<Rightarrow> item \<Rightarrow> error + string list" where
  "item_columns M it =
     (case it of
        ItemStr name \<Rightarrow>
          (if \<not> is_source_field M name
           then Inl (TypeError (''Column does not exist: ['' @ name @ '']''))
           else Inr ([] @ [name]))
      | ItemTuple names \<Rightarrow> Inr ([] @ names)
      | _ \<Rightarrow> Inr [])"

text \<open>
  \<open>__getitem__\<close>: with at least one column, a new proxy over the narrowed mappings;
  with none, the method falls off its end and returns \<open>None\<close>.
\<close>

definition getitem ::
  "'s DataFrame \<Rightarrow> item \<Rightarrow> 's \<Rightarrow> (error + 's DataFrame option) \<times> 's DataFrame \<times> 's" where
  "getitem self it s =
     (case item_columns (mappings self) it of
        Inl e \<Rightarrow> (Inl e, self, s)
      | Inr cols \<Rightarrow>
          (if length cols > 0
           then (case narrow (mappings self) cols of
                   Inl e \<Rightarrow> (Inl e, self, s)
                 | Inr m \<Rightarrow>
                     (case DataFrame_init (client self) (index_pattern self) (Some m) None s of
                        (Inl e, s') \<Rightarrow> (Inl e, self, s')
                      | (Inr new, s') \<Rightarrow> (Inr (Some new), self, s')))
           else (Inr None, self, s)))"

text \<open>
  The two exceptions that say a column is unknown: the \<open>TypeError\<close> of
  \<open>__getitem__\<close>, whose message starts with \<open>Column does not exist\<close>, and the
  error of narrowing.
\<close>

fun unknown_column_error :: "error \<Rightarrow> bool" where
  "unknown_column_error (TypeError msg) = (take 24 msg = ''Column does not exist: ['')"
| "unknown_column_error UnknownColumnError = True"
| "unknown_column_error _ = False"

section \<open>eland.ml.MLModel\<close>

text \<open>
  \<open>client.ml.delete_trained_model(model_id=..., ignore=...)\<close>: the call answers with
  the body of the response or raises.
\<close>

record 's ml_client =
  delete_trained_model :: "'s \<Rightarrow> string \<Rightarrow> nat list \<Rightarrow> (error + json) \<times> 's"

record 's MLModel =
  ml_client :: "'s ml_client"
  model_id :: string

text \<open>\<open>delete_model\<close>: \<open>NotFoundError\<close> is caught and passed over, anything else is raised.\<close>

definition delete_model :: "'s MLModel \<Rightarrow> 's \<Rightarrow> (error + unit) \<times> 's MLModel \<times> 's" where
  "delete_model self s =
     (case delete_trained_model (ml_client self) s (model_id self) [404] of
        (Inl NotFoundError, s') \<Rightarrow> (Inr (), self, s')
      | (Inl e, s') \<Rightarrow> (Inl e, self, s')
      | (Inr body, s') \<Rightarrow> (Inr (), self, s'))"

section \<open>What the claims speak of\<close>

text \<open>
  The occurrences of source fields in a document, in the order the traversal meets them:
  the field name, its dtype and the raw value. This is the traversal of \<open>flatten\<close>
  without the dict it fills.
\<close>

fun emitted :: "mappings \<Rightarrow> json \<Rightarrow> string \<Rightarrow> (string \<times> string \<times> json) list"
  and emitted_items :: "mappings \<Rightarrow> (string \<times> json) list \<Rightarrow> string \<Rightarrow> (string \<times> string \<times> json) list"
  and emitted_elems :: "mappings \<Rightarrow> json list \<Rightarrow> string \<Rightarrow> (string \<times> string \<times> json) list"
where
  "emitted M (JDict kvs) name =
     (if \<not> fst (name_dtype M name) then emitted_items M kvs name
      else [(butlast name, snd (name_dtype M name), JDict kvs)])"
| "emitted M (JList xs) name =
     (if \<not> fst (name_dtype M name) then emitted_elems M xs name
      else [(butlast name, snd (name_dtype M name), JList xs)])"
| "emitted M x name =
     (if fst (name_dtype M name) then [(butlast name, snd (name_dtype M name), x)] else [])"
| "emitted_items M [] name = []"
| "emitted_items M ((a, v) # kvs) name = emitted M v (name @ a @ ''.'') @ emitted_items M kvs name"
| "emitted_elems M [] name = []"
| "emitted_elems M (a # xs) name = emitted M a name @ emitted_elems M xs name"

text \<open>
  The values of one field in a document, in document order, each as the coercion leaves
  it (or the exception the coercion raises).
\<close>

fun coerced :: "pandas \<Rightarrow> string \<Rightarrow> (string \<times> string \<times> json) list \<Rightarrow> (error + json) list" where
  "coerced P p [] = []"
| "coerced P p ((f, dt, x) # es) =
     (if f = p then coerce P dt x # coerced P p es else coerced P p es)"

definition field_values :: "pandas \<Rightarrow> mappings \<Rightarrow> json \<Rightarrow> string \<Rightarrow> (error + json) list" where
  "field_values P M doc p = coerced P p (emitted M doc [])"

fun is_list :: "json \<Rightarrow> bool" where
  "is_list (JList l) = True"
| "is_list _ = False"

text \<open>Emitting a sequence of occurrences into a dict, one after the other.\<close>

fun emit_all :: "pandas \<Rightarrow> (string \<times> string \<times> json) list \<Rightarrow> row \<Rightarrow> error + row" where
  "emit_all P [] out = Inr out"
| "emit_all P ((f, dt, x) # es) out =
     (case emit P dt f x out of Inl e \<Rightarrow> Inl e | Inr out' \<Rightarrow> emit_all P es out')"

text \<open>What a dict holds under a key after values were put there one by one.\<close>

fun pivot :: "json option \<Rightarrow> json list \<Rightarrow> json option" where
  "pivot old [] = old"
| "pivot old (v # vs) =
     pivot (Some (case old of
                    None \<Rightarrow> v
                  | Some (JList l) \<Rightarrow> JList (l @ [v])
                  | Some prev \<Rightarrow> JList [prev, v])) vs"

text \<open>A frame is well formed when every row has one cell per column.\<close>

definition wf_frame :: "frame \<Rightarrow> bool" where
  "wf_frame df = (\<forall>r \<in> set (frame_data df). length r = length (frame_columns df))"

text \<open>A column that is present and holds \<open>None\<close> in every row.\<close>

definition null_column :: "frame \<Rightarrow> string \<Rightarrow> bool" where
  "null_column df f =
     (f \<in> set (frame_columns df)
      \<and> (\<forall>r \<in> set (frame_data df). cell_at (frame_columns df) r f = Some (Cell JNull)))"

text \<open>The column names a subscript asks for, when it is a string or a tuple.\<close>

fun requested :: "item \<Rightarrow> string list option" where
  "requested (ItemStr name) = Some [name]"
| "requested (ItemTuple names) = Some names"
| "requested _ = None"

section \<open>Concrete stores and documents\<close>

text \<open>A pandas whose two calls never raise.\<close>

definition lenient_pandas :: pandas where
  "lenient_pandas = \<lparr>to_datetime = Inr, astype = (\<lambda>series dt. Inr series)\<rparr>"

definition keyword_field :: field_descriptor where
  "keyword_field = \<lparr>projectable = True, pd_dtype = ''object'', aggregatable = True\<rparr>"

definition long_field :: field_descriptor where
  "long_field = \<lparr>projectable = True, pd_dtype = ''int64'', aggregatable = True\<rparr>"

definition date_field :: field_descriptor where
  "date_field = \<lparr>projectable = True, pd_dtype = ''datetime64[ns]'', aggregatable = True\<rparr>"

text \<open>The index of the docstring of \<open>_es_results_to_pandas\<close> and its document.\<close>

definition nested_mappings :: mappings where
  "nested_mappings =
     \<lparr>mappings_capabilities =
        [(''group'', keyword_field), (''user.first'', keyword_field), (''user.last'', keyword_field)]\<rparr>"

definition nested_doc :: json where
  "nested_doc =
     JDict [(''group'', JStr ''amsterdam''),
            (''user'', JList [JDict [(''first'', JStr ''John''), (''last'', JStr ''Smith'')],
                              JDict [(''first'', JStr ''Alice''), (''last'', JStr ''White'')]])]"

text \<open>The reviews index of the class docstring, with one document that has no reviewer.\<close>

definition reviews_mappings :: mappings where
  "reviews_mappings =
     \<lparr>mappings_capabilities =
        [(''reviewerId'', keyword_field), (''rating'', long_field), (''date'', date_field)]\<rparr>"

definition review_doc :: json where
  "review_doc = JDict [(''date'', JStr ''2006-04-07 17:08''), (''rating'', JNum 5)]"

text \<open>
  A store that answers every call with a fixed response and keeps a log of the calls it
  received.
\<close>

definition canned_client :: "json list \<Rightarrow> json \<Rightarrow> mappings \<Rightarrow> (string list) client" where
  "canned_client docs aggregations m =
     \<lparr>es_search = (\<lambda>s ip size.
          (Inr \<lparr>hits = map (\<lambda>d. \<lparr>hit_source = d\<rparr>) (take (nat size) docs)\<rparr>, s @ [''search''])),
      es_count = (\<lambda>s ip. (Inr (length docs), s @ [''count''])),
      es_execute = (\<lambda>s ip ms. (Inr aggregations, s @ [''execute''])),
      es_mappings = (\<lambda>s ip. (Inr m, s @ [''mappings'']))\<rparr>"

text \<open>The statistics of \<open>rating\<close> over no value: a count of 0, everything else null.\<close>

definition empty_rating_aggregations :: json where
  "empty_rating_aggregations =
     JDict [(''extended_stats_rating'',
               JDict [(''count'', JNum 0), (''min'', JNull), (''max'', JNull), (''avg'', JNull),
                      (''sum'', JNum 0), (''std_deviation'', JNull)]),
            (''percentiles_rating'',
               JDict [(''values'', JDict [(''25.0'', JNull), (''50.0'', JNull), (''75.0'', JNull)])])]"

text \<open>The same with a null count.\<close>

definition null_rating_aggregations :: json where
  "null_rating_aggregations =
     JDict [(''extended_stats_rating'',
               JDict [(''count'', JNull), (''min'', JNull), (''max'', JNull), (''avg'', JNull),
                      (''sum'', JNull), (''std_deviation'', JNull)]),
            (''percentiles_rating'',
               JDict [(''values'', JDict [(''25.0'', JNull), (''50.0'', JNull), (''75.0'', JNull)])])]"

definition reviews_df :: "json \<Rightarrow> (string list) DataFrame" where
  "reviews_df aggregations =
     \<lparr>client = canned_client [review_doc] aggregations reviews_mappings,
      index_pattern = ''reviews'', mappings = reviews_mappings, operations = []\<rparr>"

definition nested_df :: "(string list) DataFrame" where
  "nested_df =
     \<lparr>client = canned_client [nested_doc] JNull nested_mappings,
      index_pattern = ''my_index'', mappings = nested_mappings, operations = []\<rparr>"

text \<open>A model store that holds the ids of its models and raises when asked to delete an id it lacks.\<close>

definition model_store :: "(string list) ml_client" where
  "model_store =
     \<lparr>delete_trained_model = (\<lambda>s mid ignore.
        if mid \<in> set s then (Inr (JDict [(''acknowledged'', JBool True)]), removeAll mid s)
        else (Inl NotFoundError, s))\<rparr>"

text \<open>The proxy \<open>nested_df['user.last', 'group']\<close> returns.\<close>

definition narrowed_df :: "(string list) DataFrame" where
  "narrowed_df =
     \<lparr>client = canned_client [nested_doc] JNull nested_mappings,
      index_pattern = ''my_index'',
      mappings = \<lparr>mappings_capabilities = [(''group'', keyword_field), (''user.last'', keyword_field)]\<rparr>,
      operations = []\<rparr>"

text \<open>
  An index whose repeated group \<open>user\<close> has a leaf \<open>tags\<close> that holds an array in
  each occurrence.
\<close>

definition tags_mappings :: mappings where
  "tags_mappings = \<lparr>mappings_capabilities = [(''user.tags'', keyword_field)]\<rparr>"

definition tags_doc :: json where
  "tags_doc =
     JDict [(''user'', JList [JDict [(''tags'', JList [JStr ''a'', JStr ''b''])],
                              JDict [(''tags'', JList [JStr ''c''])]])]"

section \<open>Properties\<close>

lemmas mappings_defs = source_field_pd_dtype_def is_source_field_def source_fields_def
  numeric_source_fields_def narrow_def name_dtype_def

lemmas example_defs = lenient_pandas_def keyword_field_def long_field_def date_field_def
  nested_mappings_def nested_doc_def reviews_mappings_def review_doc_def canned_client_def
  empty_rating_aggregations_def null_rating_aggregations_def reviews_df_def nested_df_def

lemmas flatten_defs = flatten_dict_def emit_def coerce_def put_value_def field_values_def

lemmas frame_defs = from_records_def setitem_none_def getitem_series_def getitem_columns_def
  cell_at_def missing_columns_def es_results_to_pandas_def head_def columns_def

lemmas describe_defs = describe_def stat_values_def py_getitem_def py_getitem2_def py_getitem3_def

text \<open>
  The flattener is the traversal followed by the pivot: \<open>flatten\<close> puts into the dict
  exactly the occurrences \<open>emitted\<close> lists, in that order.
\<close>

lemma emit_all_append:
  "emit_all P (es @ fs) out = (case emit_all P es out of Inl e \<Rightarrow> Inl e | Inr out' \<Rightarrow> emit_all P fs out')"
  by (induction es arbitrary: out) (auto split: sum.splits)

lemma flatten_emit_all:
  "flatten P M x name out = emit_all P (emitted M x name) out"
  "flatten_items P M kvs name out = emit_all P (emitted_items M kvs name) out"
  "flatten_elems P M xs name out = emit_all P (emitted_elems M xs name) out"
  by (induction P M x name out and P M kvs name out and P M xs name out
      rule: flatten_flatten_items_flatten_elems.induct)
     (auto simp: emit_all_append split: sum.splits)

lemma map_of_put_value:
  "map_of (put_value f v out) p = (if p = f then pivot (map_of out f) [v] else map_of out p)"
  by (auto simp: put_value_def update_conv' split: option.splits json.splits)

lemma emit_all_pivot:
  "emit_all P es out = Inr out' \<Longrightarrow>
     \<exists>vs. coerced P p es = map Inr vs \<and> map_of out' p = pivot (map_of out p) vs"
proof (induction es arbitrary: out)
  case Nil
  then show ?case by simp
next
  case (Cons e es)
  obtain f dt x where e: "e = (f, dt, x)" by (cases e)
  from Cons.prems e obtain v where v: "coerce P dt x = Inr v"
    and rest: "emit_all P es (put_value f v out) = Inr out'"
    by (auto simp: emit_def split: sum.splits)
  from Cons.IH[OF rest] obtain vs where
    vs: "coerced P p es = map Inr vs"
    and m: "map_of out' p = pivot (map_of (put_value f v out) p) vs" by blast
  show ?case
  proof (cases "f = p")
    case True
    with e v vs m show ?thesis
      by (intro exI[of _ "v # vs"]) (simp add: map_of_put_value)
  next
    case False
    with e v vs m show ?thesis
      by (intro exI[of _ vs]) (simp add: map_of_put_value)
  qed
qed

lemma map_Inr_eq: "map Inr vs = (map Inr ws :: ('e + 'a) list) \<Longrightarrow> vs = ws"
  by (simp add: inj_map_eq_map)

lemma pivot_list: "pivot (Some (JList l)) vs = Some (JList (l @ vs))"
  by (induction vs arbitrary: l) auto

lemma pivot_two: "\<not> is_list v \<Longrightarrow> pivot None (v # w # ws) = Some (JList (v # w # ws))"
  by (cases v) (auto simp: pivot_list)

lemma distinct_put_value: "distinct (map fst out) \<Longrightarrow> distinct (map fst (put_value f v out))"
  by (auto simp: put_value_def distinct_update split: option.splits json.splits)

lemma emit_all_distinct:
  "emit_all P es out = Inr out' \<Longrightarrow> distinct (map fst out) \<Longrightarrow> distinct (map fst out')"
  by (induction es arbitrary: out) (auto simp: emit_def distinct_put_value split: sum.splits)

lemma json_not_singleton: "v \<noteq> JList [v]"
proof
  assume "v = JList [v]"
  then have "size v = size (JList [v])" by simp
  then show False by simp
qed

text \<open>
  Claim C3, as stated, fails when the first occurrence of a leaf is itself a list: line 211
  takes the stored list for an already pivoted one and line 214 appends the next occurrence
  to it. For \<open>user: [{tags: [a, b]}, {tags: [c]}]\<close> the occurrences of
  \<open>user.tags\<close> are \<open>[a, b]\<close> and \<open>[c]\<close>, and the row holds \<open>[a, b, [c]]\<close>:
  neither the list of the two occurrences nor the list of the three strings.
\<close>

theorem flatten_dict_list_first_counterexample:
  "field_values lenient_pandas tags_mappings tags_doc ''user.tags''
     = [Inr (JList [JStr ''a'', JStr ''b'']), Inr (JList [JStr ''c''])]
   \<and> flatten_dict lenient_pandas tags_mappings tags_doc
     = Inr [(''user.tags'', JList [JStr ''a'', JStr ''b'', JList [JStr ''c'']])]
   \<and> map_of [(''user.tags'', JList [JStr ''a'', JStr ''b'', JList [JStr ''c'']])] ''user.tags''
     \<noteq> Some (JList [JList [JStr ''a'', JStr ''b''], JList [JStr ''c'']])
   \<and> map_of [(''user.tags'', JList [JStr ''a'', JStr ''b'', JList [JStr ''c'']])] ''user.tags''
     \<noteq> Some (JList [JStr ''a'', JStr ''b'', JStr ''c''])"
  by (simp add: flatten_defs mappings_defs tags_mappings_def tags_doc_def lenient_pandas_def
      keyword_field_def)

text \<open>
  Claim C3, amended. When a document holds two or more occurrences of a source field, as a
  repeated nested group does for each of its leaves, and the first occurrence is not itself
  a list, the flattened row has one entry for the field and its value is the list of the
  occurrences in document order. For the document of the claim the row is
  \<open>group = amsterdam\<close>, \<open>user.first = [John, Alice]\<close>,
  \<open>user.last = [Smith, White]\<close>: see the witness.
\<close>

theorem flatten_dict_multi_value:
  assumes "flatten_dict P M doc = Inr out"
    and "field_values P M doc p = map Inr (v # w # ws)"
    and "\<not> is_list v"
  shows "map_of out p = Some (JList (v # w # ws)) \<and> distinct (map fst out)"
proof -
  from assms(1) have ea: "emit_all P (emitted M doc '''') [] = Inr out"
    by (simp add: flatten_dict_def flatten_emit_all)
  from emit_all_pivot[OF ea, of p] obtain vs where
    vs: "field_values P M doc p = map Inr vs" and m: "map_of out p = pivot None vs"
    by (auto simp: field_values_def)
  from vs assms(2) have "map Inr vs = (map Inr (v # w # ws) :: (error + json) list)" by simp
  then have "vs = v # w # ws" by (rule map_Inr_eq)
  with m have "map_of out p = pivot None (v # w # ws)" by (simp only:)
  also have "\<dots> = Some (JList (v # w # ws))" by (rule pivot_two[OF assms(3)])
  finally have "map_of out p = Some (JList (v # w # ws))" .
  moreover from emit_all_distinct[OF ea] have "distinct (map fst out)" by simp
  ultimately show ?thesis by simp
qed

text \<open>
  Claim C6. A source field that occurs exactly once in a document is mapped to its value
  as it is, not to a list holding that one value.
\<close>

theorem flatten_dict_single_value:
  assumes "flatten_dict P M doc = Inr out"
    and "field_values P M doc p = [Inr v]"
  shows "map_of out p = Some v \<and> map_of out p \<noteq> Some (JList [v])"
proof -
  from assms(1) have ea: "emit_all P (emitted M doc '''') [] = Inr out"
    by (simp add: flatten_dict_def flatten_emit_all)
  from emit_all_pivot[OF ea, of p] obtain vs where
    vs: "field_values P M doc p = map Inr vs" and m: "map_of out p = pivot None vs"
    by (auto simp: field_values_def)
  from vs assms(2) have "vs = [v]" by auto
  with m show ?thesis by (simp add: json_not_singleton)
qed

text \<open>
  The document of claim C3, flattened.
\<close>

theorem flatten_dict_multi_value_witness:
  "flatten_dict lenient_pandas nested_mappings nested_doc
     = Inr [(''group'', JStr ''amsterdam''),
            (''user.first'', JList [JStr ''John'', JStr ''Alice'']),
            (''user.last'', JList [JStr ''Smith'', JStr ''White''])]
   \<and> field_values lenient_pandas nested_mappings nested_doc ''user.first''
     = map Inr [JStr ''John'', JStr ''Alice'']
   \<and> \<not> is_list (JStr ''John'')
   \<and> map_of [(''group'', JStr ''amsterdam''),
            (''user.first'', JList [JStr ''John'', JStr ''Alice'']),
            (''user.last'', JList [JStr ''Smith'', JStr ''White''])] ''user.first''
     = Some (JList [JStr ''John'', JStr ''Alice''])"
proof -
  have a: "flatten_dict lenient_pandas nested_mappings nested_doc
     = Inr [(''group'', JStr ''amsterdam''),
            (''user.first'', JList [JStr ''John'', JStr ''Alice'']),
            (''user.last'', JList [JStr ''Smith'', JStr ''White''])]"
    by (simp add: flatten_defs mappings_defs example_defs)
  have b: "field_values lenient_pandas nested_mappings nested_doc ''user.first''
     = map Inr [JStr ''John'', JStr ''Alice'']"
    by (simp add: flatten_defs mappings_defs example_defs)
  have c: "\<not> is_list (JStr ''John'')" by simp
  from flatten_dict_multi_value[OF a b c] a b c show ?thesis by simp
qed

text \<open>
  In the document of the docstring, \<open>group\<close> occurs once and stays a bare string.
\<close>

theorem flatten_dict_single_value_witness:
  "flatten_dict lenient_pandas nested_mappings nested_doc
     = Inr [(''group'', JStr ''amsterdam''),
            (''user.first'', JList [JStr ''John'', JStr ''Alice'']),
            (''user.last'', JList [JStr ''Smith'', JStr ''White''])]
   \<and> field_values lenient_pandas nested_mappings nested_doc ''group'' = [Inr (JStr ''amsterdam'')]
   \<and> map_of [(''group'', JStr ''amsterdam''),
            (''user.first'', JList [JStr ''John'', JStr ''Alice'']),
            (''user.last'', JList [JStr ''Smith'', JStr ''White''])] ''group''
     = Some (JStr ''amsterdam'')"
proof -
  have a: "flatten_dict lenient_pandas nested_mappings nested_doc
     = Inr [(''group'', JStr ''amsterdam''),
            (''user.first'', JList [JStr ''John'', JStr ''Alice'']),
            (''user.last'', JList [JStr ''Smith'', JStr ''White''])]"
    by (simp add: flatten_defs mappings_defs example_defs)
  have b: "field_values lenient_pandas nested_mappings nested_doc ''group'' = [Inr (JStr ''amsterdam'')]"
    by (simp add: flatten_defs mappings_defs example_defs)
  from flatten_dict_single_value[OF a b] a b show ?thesis by simp
qed

text \<open>
  Lemmas on frames: looking a cell up after a column was added or overwritten, and the
  loop that fills the missing columns.
\<close>

lemma cell_at_snoc:
  "length r = length cols \<Longrightarrow>
     cell_at (cols @ [c]) (r @ [v]) x
       = (if x \<in> set cols then cell_at cols r x else if x = c then Some v else None)"
proof -
  assume len: "length r = length cols"
  then have none: "(map_of (zip cols r) x = None) = (x \<notin> set cols)"
    by (simp add: map_of_zip_is_None)
  from len have "zip (cols @ [c]) (r @ [v]) = zip cols r @ [(c, v)]" by simp
  then show ?thesis
    using none by (auto simp: cell_at_def map_add_def split: option.splits)
qed

lemma map_of_zip_overwrite:
  "length cols = length r \<Longrightarrow>
     map_of (zip cols (map (\<lambda>(cn, v). if cn = c then w else v) (zip cols r))) x
       = (if x = c then (if x \<in> set cols then Some w else None) else map_of (zip cols r) x)"
  by (induction cols r rule: list_induct2) auto

lemma cell_at_overwrite:
  "length r = length cols \<Longrightarrow>
     cell_at cols (map (\<lambda>(cn, v). if cn = c then w else v) (zip cols r)) x
       = (if x = c then (if x \<in> set cols then Some w else None) else cell_at cols r x)"
  unfolding cell_at_def by (rule map_of_zip_overwrite) simp

lemma wf_setitem_none: "wf_frame df \<Longrightarrow> wf_frame (setitem_none df c)"
  by (auto simp: wf_frame_def setitem_none_def)

lemma null_column_setitem_same: "wf_frame df \<Longrightarrow> null_column (setitem_none df f) f"
  by (auto simp: wf_frame_def setitem_none_def null_column_def cell_at_snoc cell_at_overwrite)

lemma null_column_setitem_other:
  "wf_frame df \<Longrightarrow> null_column df f \<Longrightarrow> null_column (setitem_none df m) f"
  by (auto simp: wf_frame_def setitem_none_def null_column_def cell_at_snoc cell_at_overwrite)

lemma fill_missing_null_column:
  "fill_missing P M df ms = Inr df' \<Longrightarrow> wf_frame df \<Longrightarrow> f \<in> set ms \<or> null_column df f
     \<Longrightarrow> null_column df' f"
proof (induction ms arbitrary: df)
  case Nil
  then show ?case by simp
next
  case (Cons m ms)
  from Cons.prems(1) have rest: "fill_missing P M (setitem_none df m) ms = Inr df'"
    by (auto split: sum.splits)
  have wf: "wf_frame (setitem_none df m)" using Cons.prems(2) by (rule wf_setitem_none)
  have "f \<in> set ms \<or> null_column (setitem_none df m) f"
    using Cons.prems(2,3) null_column_setitem_same null_column_setitem_other by auto
  with Cons.IH[OF rest wf] show ?case by simp
qed

lemma wf_from_records: "wf_frame (from_records rows)"
  by (simp add: wf_frame_def from_records_def Let_def)

lemma columns_from_records: "set (frame_columns (from_records rows)) = (\<Union>r \<in> set rows. fst ` set r)"
  by (auto simp: from_records_def Let_def)

lemma cell_at_map: "cell_at cs (map g cs) f = (if f \<in> set cs then Some (g f) else None)"
  by (simp add: cell_at_def map_of_zip_map)

lemma getitem_columns_null:
  "getitem_columns df cs = Inr df' \<Longrightarrow> null_column df f \<Longrightarrow> f \<in> set cs \<Longrightarrow> null_column df' f"
  by (auto simp: getitem_columns_def null_column_def cell_at_map split: if_splits)

lemma getitem_columns_shape:
  "getitem_columns df cs = Inr df' \<Longrightarrow> frame_columns df' = cs \<and> wf_frame df'"
  by (auto simp: getitem_columns_def wf_frame_def split: if_splits)

text \<open>
  Claim C4. Whatever documents the store returns, the frame \<open>head\<close> produces has the
  columns of the mappings' source fields, in that order, and every row has exactly one
  cell under each of them.
\<close>

theorem head_column_order:
  assumes "head P self s n = (Inr df, self', s')"
  shows "frame_columns df = source_fields (mappings self)
         \<and> (\<forall>r \<in> set (frame_data df). map fst (zip (frame_columns df) r) = source_fields (mappings self))"
proof -
  from assms obtain res where "es_results_to_pandas P self res = Inr df"
    by (auto simp: head_def split: prod.splits sum.splits)
  then obtain df1 where "getitem_columns df1 (columns self) = Inr df"
    by (auto simp: es_results_to_pandas_def split: sum.splits)
  from getitem_columns_shape[OF this]
  have cols: "frame_columns df = columns self" and wf: "wf_frame df" by simp_all
  from wf have "\<forall>r \<in> set (frame_data df). map fst (zip (frame_columns df) r) = frame_columns df"
    by (simp add: wf_frame_def)
  with cols show ?thesis by (simp add: columns_def)
qed

lemma head_reviews:
  "head lenient_pandas (reviews_df JNull) [] 5
     = (Inr \<lparr>frame_columns = [''reviewerId'', ''rating'', ''date''],
             frame_data = [[Cell JNull, Cell (JNum 5), Cell (JStr ''2006-04-07 17:08'')]]\<rparr>,
        reviews_df JNull, [''search''])"
  by (simp add: frame_defs flatten_defs mappings_defs example_defs)

text \<open>
  A document without \<open>rating\<close> and with its keys in another order than the mappings.
\<close>

theorem head_column_order_witness:
  "head lenient_pandas (reviews_df JNull) [] 5
     = (Inr \<lparr>frame_columns = [''reviewerId'', ''rating'', ''date''],
             frame_data = [[Cell JNull, Cell (JNum 5), Cell (JStr ''2006-04-07 17:08'')]]\<rparr>,
        reviews_df JNull, [''search''])
   \<and> source_fields (mappings (reviews_df JNull)) = [''reviewerId'', ''rating'', ''date'']
   \<and> map fst (zip [''reviewerId'', ''rating'', ''date'']
                   [Cell JNull, Cell (JNum 5), Cell (JStr ''2006-04-07 17:08'')])
       = [''reviewerId'', ''rating'', ''date'']"
  using head_column_order[OF head_reviews] head_reviews
  by (simp add: mappings_defs example_defs)

lemma flatten_dict_absent:
  assumes "flatten_dict P M doc = Inr out" and "field_values P M doc f = []"
  shows "f \<notin> fst ` set out"
proof -
  from assms(1) have ea: "emit_all P (emitted M doc '''') [] = Inr out"
    by (simp add: flatten_dict_def flatten_emit_all)
  from emit_all_pivot[OF ea, of f] assms(2) have "map_of out f = None"
    by (auto simp: field_values_def)
  then show ?thesis by (simp add: map_of_eq_None_iff)
qed

lemma flatten_rows_absent:
  "flatten_rows P M hs = Inr rows \<Longrightarrow> \<forall>h \<in> set hs. field_values P M (hit_source h) f = []
     \<Longrightarrow> \<forall>r \<in> set rows. f \<notin> fst ` set r"
proof (induction hs arbitrary: rows)
  case Nil
  then show ?case by simp
next
  case (Cons h hs)
  from Cons.prems(1) obtain r rs where r: "flatten_dict P M (hit_source h) = Inr r"
    and rs: "flatten_rows P M hs = Inr rs" and rows: "rows = r # rs"
    by (auto split: sum.splits)
  from flatten_dict_absent[OF r] Cons.prems(2) have "f \<notin> fst ` set r" by simp
  moreover from Cons.IH[OF rs] Cons.prems(2) have "\<forall>r \<in> set rs. f \<notin> fst ` set r" by simp
  ultimately show ?case using rows by simp
qed

text \<open>
  Claim C5. A source field of the mappings that occurs in none of the fetched documents
  is \<open>None\<close> in every row of the frame \<open>head\<close> produces.
\<close>

theorem head_null_fill:
  assumes "es_search (client self) s (index_pattern self) n = (Inr res, s')"
    and "fst (head P self s n) = Inr df"
    and "f \<in> set (source_fields (mappings self))"
    and "\<forall>h \<in> set (hits res). field_values P (mappings self) (hit_source h) f = []"
  shows "\<forall>r \<in> set (frame_data df). cell_at (frame_columns df) r f = Some (Cell JNull)"
proof -
  from assms(1,2) have conv: "es_results_to_pandas P self res = Inr df"
    by (simp add: head_def)
  then obtain rows df1 where rows: "flatten_rows P (mappings self) (hits res) = Inr rows"
    and fill: "fill_missing P (mappings self) (from_records rows)
                 (missing_columns (columns self) (from_records rows)) = Inr df1"
    and sel: "getitem_columns df1 (columns self) = Inr df"
    by (auto simp: es_results_to_pandas_def split: sum.splits)
  from flatten_rows_absent[OF rows assms(4)]
  have "f \<notin> set (frame_columns (from_records rows))"
    by (simp add: columns_from_records)
  with assms(3) have "f \<in> set (missing_columns (columns self) (from_records rows))"
    by (simp add: missing_columns_def columns_def)
  with fill_missing_null_column[OF fill wf_from_records] have "null_column df1 f" by simp
  from getitem_columns_null[OF sel this] assms(3) have "null_column df f"
    by (simp add: columns_def)
  then show ?thesis by (simp add: null_column_def)
qed

lemma search_reviews:
  "es_search (client (reviews_df JNull)) [] (index_pattern (reviews_df JNull)) 5
     = (Inr \<lparr>hits = [\<lparr>hit_source = review_doc\<rparr>]\<rparr>, [''search''])"
  by (simp add: reviews_df_def canned_client_def)

text \<open>
  The reviews index with a document that has no \<open>rating\<close>.
\<close>

theorem head_null_fill_witness:
  "es_search (client (reviews_df JNull)) [] (index_pattern (reviews_df JNull)) 5
     = (Inr \<lparr>hits = [\<lparr>hit_source = review_doc\<rparr>]\<rparr>, [''search''])
   \<and> fst (head lenient_pandas (reviews_df JNull) [] 5)
     = Inr \<lparr>frame_columns = [''reviewerId'', ''rating'', ''date''],
            frame_data = [[Cell JNull, Cell (JNum 5), Cell (JStr ''2006-04-07 17:08'')]]\<rparr>
   \<and> ''reviewerId'' \<in> set (source_fields (mappings (reviews_df JNull)))
   \<and> field_values lenient_pandas (mappings (reviews_df JNull)) review_doc ''reviewerId'' = []
   \<and> cell_at [''reviewerId'', ''rating'', ''date'']
        [Cell JNull, Cell (JNum 5), Cell (JStr ''2006-04-07 17:08'')] ''reviewerId''
     = Some (Cell JNull)"
proof -
  have h: "fst (head lenient_pandas (reviews_df JNull) [] 5)
     = Inr \<lparr>frame_columns = [''reviewerId'', ''rating'', ''date''],
            frame_data = [[Cell JNull, Cell (JNum 5), Cell (JStr ''2006-04-07 17:08'')]]\<rparr>"
    by (simp add: head_reviews)
  have m: "''reviewerId'' \<in> set (source_fields (mappings (reviews_df JNull)))"
    by (simp add: mappings_defs example_defs)
  have a: "field_values lenient_pandas (mappings (reviews_df JNull)) review_doc ''reviewerId'' = []"
    by (simp add: flatten_defs mappings_defs example_defs)
  then have a': "\<forall>h \<in> set (hits \<lparr>hits = [\<lparr>hit_source = review_doc\<rparr>]\<rparr>).
      field_values lenient_pandas (mappings (reviews_df JNull)) (hit_source h) ''reviewerId'' = []"
    by simp
  from head_null_fill[OF search_reviews h m a'] search_reviews h m a show ?thesis by simp
qed

text \<open>
  Claim C1, as stated, fails: with a count of 0 and the seven other statistics null,
  \<open>values.count(None)\<close> is 7, which is less than 8, and \<open>describe\<close> keeps the
  column \<open>rating\<close>.
\<close>

theorem describe_count_zero_keeps_rating:
  "stat_values empty_rating_aggregations ''rating''
     = Inr [JNum 0, JNull, JNull, JNull, JNull, JNull, JNull, JNull]
   \<and> describe (reviews_df empty_rating_aggregations) []
     = (Inr \<lparr>stats_index = [''count'', ''mean'', ''std'', ''min'', ''25%'', ''50%'', ''75%'', ''max''],
             stats_columns = [(''rating'', [JNum 0, JNull, JNull, JNull, JNull, JNull, JNull, JNull])]\<rparr>,
        reviews_df empty_rating_aggregations, [''execute''])"
  by (simp add: describe_defs mappings_defs example_defs)

lemma count_list_all_null: "\<forall>v \<in> set vs. v = JNull \<Longrightarrow> count_list vs JNull = length vs"
  by (induction vs) auto

lemma describe_loop_columns:
  "describe_loop aggs fs res = Inr res' \<Longrightarrow> f \<in> fst ` set res' \<Longrightarrow>
     f \<in> fst ` set res \<or> (\<exists>vs. stat_values aggs f = Inr vs \<and> count_list vs JNull < length vs)"
proof (induction fs arbitrary: res)
  case Nil
  then show ?case by simp
next
  case (Cons g fs)
  from Cons.prems(1) obtain vs where vs: "stat_values aggs g = Inr vs"
    and rest: "describe_loop aggs fs
                 (if count_list vs JNull < length vs then AList.update g vs res else res) = Inr res'"
    by (auto split: sum.splits)
  from Cons.IH[OF rest Cons.prems(2)] vs show ?case
    by (auto simp: dom_update split: if_splits)
qed

text \<open>
  Claim C1, amended. A field whose eight statistics are all null, the count included, has
  no column in the table \<open>describe\<close> returns.
\<close>

theorem describe_drops_all_null:
  assumes "es_execute (client self) s (index_pattern self)
             (add_metrics (numeric_source_fields (mappings self))) = (Inr aggs, s')"
    and "fst (describe self s) = Inr df"
    and "stat_values aggs f = Inr vs"
    and "\<forall>v \<in> set vs. v = JNull"
  shows "f \<notin> fst ` set (stats_columns df)"
proof
  assume f: "f \<in> fst ` set (stats_columns df)"
  from assms(1,2) have
    "describe_loop aggs (numeric_source_fields (mappings self)) [] = Inr (stats_columns df)"
    by (auto simp: describe_def split: sum.splits)
  from describe_loop_columns[OF this f] assms(3)
  have "count_list vs JNull < length vs" by simp
  with count_list_all_null[OF assms(4)] show False by simp
qed

lemma execute_reviews:
  "es_execute (client (reviews_df null_rating_aggregations)) []
       (index_pattern (reviews_df null_rating_aggregations))
       (add_metrics (numeric_source_fields (mappings (reviews_df null_rating_aggregations))))
     = (Inr null_rating_aggregations, [''execute''])"
  by (simp add: reviews_df_def canned_client_def)

text \<open>
  The response with a null count: \<open>rating\<close> is a numeric source field and the table
  has no column for it.
\<close>

theorem describe_drops_all_null_witness:
  "es_execute (client (reviews_df null_rating_aggregations)) []
       (index_pattern (reviews_df null_rating_aggregations))
       (add_metrics (numeric_source_fields (mappings (reviews_df null_rating_aggregations))))
     = (Inr null_rating_aggregations, [''execute''])
   \<and> fst (describe (reviews_df null_rating_aggregations) [])
     = Inr \<lparr>stats_index = [''count'', ''mean'', ''std'', ''min'', ''25%'', ''50%'', ''75%'', ''max''],
            stats_columns = []\<rparr>
   \<and> stat_values null_rating_aggregations ''rating''
     = Inr [JNull, JNull, JNull, JNull, JNull, JNull, JNull, JNull]
   \<and> ''rating'' \<in> set (numeric_source_fields (mappings (reviews_df null_rating_aggregations)))
   \<and> ''rating'' \<notin> fst ` set (stats_columns
        \<lparr>stats_index = [''count'', ''mean'', ''std'', ''min'', ''25%'', ''50%'', ''75%'', ''max''],
         stats_columns = []\<rparr>)"
proof -
  have d: "fst (describe (reviews_df null_rating_aggregations) [])
     = Inr \<lparr>stats_index = [''count'', ''mean'', ''std'', ''min'', ''25%'', ''50%'', ''75%'', ''max''],
            stats_columns = []\<rparr>"
    by (simp add: describe_defs mappings_defs example_defs)
  have v: "stat_values null_rating_aggregations ''rating''
     = Inr [JNull, JNull, JNull, JNull, JNull, JNull, JNull, JNull]"
    by (simp add: describe_defs example_defs)
  have n: "\<forall>v \<in> set [JNull, JNull, JNull, JNull, JNull, JNull, JNull, JNull]. v = JNull" by simp
  have m: "''rating'' \<in> set (numeric_source_fields (mappings (reviews_df null_rating_aggregations)))"
    by (simp add: mappings_defs example_defs)
  from describe_drops_all_null[OF execute_reviews d v n] execute_reviews d v m show ?thesis
    by simp
qed

lemma source_fields_iff: "n \<in> set (source_fields M) \<longleftrightarrow> is_source_field M n"
proof
  assume "n \<in> set (source_fields M)"
  then show "is_source_field M n" by (simp add: source_fields_def)
next
  assume a: "is_source_field M n"
  then have "map_of (mappings_capabilities M) n \<noteq> None"
    by (auto simp: is_source_field_def source_field_pd_dtype_def split: option.splits)
  then have "n \<in> fst ` set (mappings_capabilities M)" by (simp add: map_of_eq_None_iff)
  with a show "n \<in> set (source_fields M)" by (simp add: source_fields_def)
qed

lemma unknown_column_message:
  "unknown_column_error (TypeError (''Column does not exist: ['' @ name @ '']''))"
  by simp

text \<open>
  Claim C2. A subscript by a string or a tuple that names a column the proxy does not have
  raises an unknown-column error, and the store's state is the one the call was given: no
  call reached the store.
\<close>

theorem getitem_unknown_column:
  assumes "requested it = Some names"
    and "\<exists>n \<in> set names. n \<notin> set (columns self)"
  shows "\<exists>e. getitem self it s = (Inl e, self, s) \<and> unknown_column_error e"
proof (cases it)
  case (ItemStr name)
  with assms have "\<not> is_source_field (mappings self) name"
    by (auto simp: columns_def source_fields_iff)
  with ItemStr have "getitem self it s
      = (Inl (TypeError (''Column does not exist: ['' @ name @ '']'')), self, s)"
    by (simp add: getitem_def item_columns_def)
  then show ?thesis using unknown_column_message by blast
next
  case (ItemTuple ns)
  with assms obtain n where n: "n \<in> set ns" "\<not> is_source_field (mappings self) n"
    by (auto simp: columns_def source_fields_iff)
  then have "ns \<noteq> []" by auto
  moreover from n have "narrow (mappings self) ns = Inl UnknownColumnError"
    by (auto simp: narrow_def)
  ultimately have "getitem self it s = (Inl UnknownColumnError, self, s)"
    using ItemTuple by (simp add: getitem_def item_columns_def)
  then show ?thesis by simp
qed (use assms in simp_all)

text \<open>
  The subscript \<open>df['nonexistent_field']\<close> on a store that logs its calls: the log
  stays empty.
\<close>

theorem getitem_unknown_column_witness:
  "requested (ItemStr ''nonexistent_field'') = Some [''nonexistent_field'']
   \<and> ''nonexistent_field'' \<notin> set (columns nested_df)
   \<and> getitem nested_df (ItemStr ''nonexistent_field'') []
     = (Inl (TypeError ''Column does not exist: [nonexistent_field]''), nested_df, [])"
proof -
  have r: "requested (ItemStr ''nonexistent_field'') = Some [''nonexistent_field'']" by simp
  have c: "''nonexistent_field'' \<notin> set (columns nested_df)"
    by (simp add: columns_def mappings_defs example_defs)
  then have c': "\<exists>n \<in> set [''nonexistent_field'']. n \<notin> set (columns nested_df)" by simp
  have g: "getitem nested_df (ItemStr ''nonexistent_field'') []
     = (Inl (TypeError ''Column does not exist: [nonexistent_field]''), nested_df, [])"
    by (simp add: getitem_def item_columns_def mappings_defs example_defs)
  from getitem_unknown_column[OF r c', of "[]"] r c g show ?thesis by simp
qed

lemma head_self: "fst (snd (head P self s n)) = self"
  by (simp add: head_def split: prod.splits sum.splits)

text \<open>
  Claim C7. \<open>shape\<close> is the count the store answers with and the number of source
  fields of the mappings; the proxy a call of \<open>head\<close> leaves behind has the same
  shape, whatever number of rows was asked for.
\<close>

theorem shape_consistency:
  assumes "es_count (client self) s (index_pattern self) = (Inr n, s')"
  shows "shape self s = (Inr (n, length (source_fields (mappings self))), self, s')
         \<and> (\<forall>k s0. shape (fst (snd (head P self s0 k))) s = shape self s)"
  using assms by (simp add: shape_def dunder_len_def columns_def head_self)

text \<open>
  One document in the store, three source fields, and a \<open>head(0)\<close> before.
\<close>

theorem shape_consistency_witness:
  "es_count (client nested_df) [] (index_pattern nested_df) = (Inr 1, [''count''])
   \<and> shape nested_df [] = (Inr (1, 3), nested_df, [''count''])
   \<and> shape (fst (snd (head lenient_pandas nested_df [] 0))) [] = shape nested_df []"
proof -
  have c: "es_count (client nested_df) [] (index_pattern nested_df) = (Inr 1, [''count''])"
    by (simp add: example_defs)
  have l: "length (source_fields (mappings nested_df)) = 3"
    by (simp add: mappings_defs example_defs)
  from shape_consistency[OF c, of lenient_pandas] c l show ?thesis by simp
qed

lemma describe_self: "fst (snd (describe self s)) = self"
  by (simp add: describe_def split: prod.splits sum.splits)

lemma shape_self: "fst (snd (shape self s)) = self"
  by (simp add: shape_def dunder_len_def split: prod.splits sum.splits)

lemma getitem_self: "fst (snd (getitem self it s)) = self"
  by (simp add: getitem_def split: prod.splits sum.splits)

lemma getitem_new:
  assumes "fst (getitem self it s) = Inr (Some new)"
  shows "client new = client self \<and> index_pattern new = index_pattern self \<and> operations new = []
         \<and> (case item_columns (mappings self) it of
               Inl e \<Rightarrow> False
             | Inr cols \<Rightarrow> narrow (mappings self) cols = Inr (mappings new))"
  using assms
  by (auto simp: getitem_def DataFrame_init_def split: sum.splits if_splits prod.splits)

text \<open>
  Claim C8. \<open>head\<close>, \<open>describe\<close>, \<open>shape\<close> and \<open>__getitem__\<close> leave the proxy
  as it was (client, index pattern, mappings and operations); when \<open>__getitem__\<close>
  returns a proxy, it is a new one over the same client and index pattern whose mappings
  are the narrowed ones.
\<close>

theorem accessors_leave_proxy:
  "fst (snd (head P self s n)) = self
   \<and> fst (snd (describe self s)) = self
   \<and> fst (snd (shape self s)) = self
   \<and> fst (snd (getitem self it s)) = self
   \<and> (\<forall>new. fst (getitem self it s) = Inr (Some new) \<longrightarrow>
         client new = client self \<and> index_pattern new = index_pattern self
         \<and> (case item_columns (mappings self) it of
               Inl e \<Rightarrow> False
             | Inr cols \<Rightarrow> narrow (mappings self) cols = Inr (mappings new)))"
proof (intro conjI allI impI)
  show "fst (snd (head P self s n)) = self" by (rule head_self)
  show "fst (snd (describe self s)) = self" by (rule describe_self)
  show "fst (snd (shape self s)) = self" by (rule shape_self)
  show "fst (snd (getitem self it s)) = self" by (rule getitem_self)
next
  fix new assume a: "fst (getitem self it s) = Inr (Some new)"
  from getitem_new[OF a] show "client new = client self" by (rule conjunct1)
  from getitem_new[OF a] show "index_pattern new = index_pattern self" by blast
  from getitem_new[OF a] show "case item_columns (mappings self) it of
               Inl e \<Rightarrow> False
             | Inr cols \<Rightarrow> narrow (mappings self) cols = Inr (mappings new)" by blast
qed

lemma getitem_nested:
  "getitem nested_df (ItemTuple [''user.last'', ''group'']) [] = (Inr (Some narrowed_df), nested_df, [])"
  by (simp add: getitem_def item_columns_def DataFrame_init_def narrowed_df_def mappings_defs
      nested_df_def nested_mappings_def keyword_field_def)

text \<open>
  \<open>nested_df['user.last', 'group']\<close>: a new proxy with two fields, the original kept.
\<close>

theorem accessors_leave_proxy_witness:
  "fst (getitem nested_df (ItemTuple [''user.last'', ''group'']) []) = Inr (Some narrowed_df)
   \<and> fst (snd (getitem nested_df (ItemTuple [''user.last'', ''group'']) [])) = nested_df
   \<and> index_pattern narrowed_df = index_pattern nested_df
   \<and> narrow (mappings nested_df) [''user.last'', ''group''] = Inr (mappings narrowed_df)
   \<and> mappings narrowed_df \<noteq> mappings nested_df"
proof -
  have g: "fst (getitem nested_df (ItemTuple [''user.last'', ''group'']) []) = Inr (Some narrowed_df)"
    by (simp only: getitem_nested fst_conv)
  have i: "item_columns (mappings nested_df) (ItemTuple [''user.last'', ''group''])
             = Inr [''user.last'', ''group'']"
    by (simp add: item_columns_def)
  have d: "mappings narrowed_df \<noteq> mappings nested_df"
    by (simp add: narrowed_df_def nested_df_def nested_mappings_def)
  note t = accessors_leave_proxy[of lenient_pandas nested_df "[]" 5
             "ItemTuple [''user.last'', ''group'']"]
  from t have s: "fst (snd (getitem nested_df (ItemTuple [''user.last'', ''group'']) [])) = nested_df"
    by blast
  from t g have p: "index_pattern narrowed_df = index_pattern nested_df" by blast
  from t g have "case item_columns (mappings nested_df) (ItemTuple [''user.last'', ''group'']) of
               Inl e \<Rightarrow> False
             | Inr cols \<Rightarrow> narrow (mappings nested_df) cols = Inr (mappings narrowed_df)"
    by blast
  then have n: "narrow (mappings nested_df) [''user.last'', ''group''] = Inr (mappings narrowed_df)"
    by (simp only: i sum.case)
  from g s p n d show ?thesis by blast
qed

text \<open>
  Claim C9. When the store answers the deletion with \<open>NotFoundError\<close>,
  \<open>delete_model\<close> returns normally.
\<close>

theorem delete_model_not_found:
  assumes "delete_trained_model (ml_client self) s (model_id self) [404] = (Inl NotFoundError, s')"
  shows "delete_model self s = (Inr (), self, s')"
  using assms by (simp add: delete_model_def)

text \<open>
  Deleting a model the store does not hold: no error, the store unchanged.
\<close>

theorem delete_model_not_found_witness:
  "delete_trained_model (ml_client \<lparr>ml_client = model_store, model_id = ''absent''\<rparr>) [''kept'']
       (model_id \<lparr>ml_client = model_store, model_id = ''absent''\<rparr>) [404]
     = (Inl NotFoundError, [''kept''])
   \<and> delete_model \<lparr>ml_client = model_store, model_id = ''absent''\<rparr> [''kept'']
     = (Inr (), \<lparr>ml_client = model_store, model_id = ''absent''\<rparr>, [''kept''])"
proof -
  have c: "delete_trained_model (ml_client \<lparr>ml_client = model_store, model_id = ''absent''\<rparr>) [''kept'']
       (model_id \<lparr>ml_client = model_store, model_id = ''absent''\<rparr>) [404]
     = (Inl NotFoundError, [''kept''])"
    by (simp add: model_store_def)
  from delete_model_not_found[OF c] c show ?thesis by simp
qed

text \<open>
  Claim C10. A subscript that is neither a string nor a tuple returns \<open>None\<close>: no
  error, no call to the store, no new proxy.
\<close>

theorem getitem_other_returns_None:
  assumes "requested it = None"
  shows "getitem self it s = (Inr None, self, s)"
  using assms by (cases it) (simp_all add: getitem_def item_columns_def)

text \<open>
  \<open>df[0]\<close> and \<open>df[['group']]\<close>.
\<close>

theorem getitem_other_returns_None_witness:
  "requested (ItemInt 0) = None
   \<and> getitem nested_df (ItemInt 0) [] = (Inr None, nested_df, [])
   \<and> requested (ItemList [''group'']) = None
   \<and> getitem nested_df (ItemList [''group'']) [] = (Inr None, nested_df, [])"
proof -
  have a: "requested (ItemInt 0) = None" and b: "requested (ItemList [''group'']) = None"
    by simp_all
  from getitem_other_returns_None[OF a, of nested_df "[]"]
    getitem_other_returns_None[OF b, of nested_df "[]"] a b show ?thesis by simp
qed

end
